theory Spec2Isabelle
  imports Main
begin

section \<open>JavaScript values that reach the API boundary\<close>

text \<open>
  The identifier handed to \<^verbatim>\<open>toggleDeviceBlock\<close> and \<^verbatim>\<open>updateDeviceNickname\<close> is
  whatever the caller holds in \<^verbatim>\<open>device.mac\<close>; the guard \<^verbatim>\<open>if (!deviceId)\<close> tests its
  truthiness. The primitive values are modelled; numbers are the integers (no NaN).
\<close>

datatype js_value = JUndefined | JNull | JBoolean bool | JNumber int | JString string

fun truthy :: "js_value \<Rightarrow> bool" where
  "truthy JUndefined = False"
| "truthy JNull = False"
| "truthy (JBoolean b) = b"
| "truthy (JNumber n) = (n \<noteq> 0)"
| "truthy (JString s) = (s \<noteq> [])"

definition digit_char :: "nat \<Rightarrow> char" where
  "digit_char n = ''0123456789'' ! (n mod 10)"

fun show_nat :: "nat \<Rightarrow> string" where
  "show_nat n = (if n < 10 then [digit_char n] else show_nat (n div 10) @ [digit_char n])"

definition show_int :: "int \<Rightarrow> string" where
  "show_int i = (if i < 0 then CHR ''-'' # show_nat (nat (- i)) else show_nat (nat i))"

text \<open>What a template literal \<^verbatim>\<open>`${v}`\<close> puts into the string.\<close>

fun js_to_string :: "js_value \<Rightarrow> string" where
  "js_to_string JUndefined = ''undefined''"
| "js_to_string JNull = ''null''"
| "js_to_string (JBoolean b) = (if b then ''true'' else ''false'')"
| "js_to_string (JNumber n) = show_int n"
| "js_to_string (JString s) = s"

section \<open>Data model\<close>

text \<open>
  A device is the JSON object the backend returns. A text field that may be missing is a
  \<open>string option\<close> (\<open>None\<close> is \<^verbatim>\<open>undefined\<close>); the two spellings of the block flag are
  both kept, a missing flag being \<open>False\<close>; the risk score and the port count are whole
  numbers and the latency is in whole milliseconds.
\<close>

record device =
  mac :: string
  ip :: string
  nickname :: "string option"
  hostname :: "string option"
  vendor :: "string option"
  name :: "string option"
  os_type :: "string option"
  device_type :: "string option"
  risk_score :: int
  open_ports :: nat
  latency :: "nat option"
  isBlocked :: bool
  is_blocked :: bool

record log_entry =
  log_id :: nat
  log_time :: string
  log_event :: string
  log_type :: string

text \<open>The JSON object a mutating endpoint answers with.\<close>

record reply =
  status :: string
  message :: "string option"
  reply_isBlocked :: bool

section \<open>The API module (api.js)\<close>

text \<open>
  Every function of api.js sends at most one HTTP request and then settles to a value.
  What the transport does with the request is an input of the model: the backend is
  unreachable (\<^verbatim>\<open>fetch\<close> rejects), the body is not JSON (\<^verbatim>\<open>response.json()\<close> rejects),
  or the body parses to a value.

  A call is the list of requests it sends, in order, together with the function from the
  transport's outcome to what the promise settles to: \<open>Inl\<close> is a rejected promise (an
  exception at the caller's \<^verbatim>\<open>await\<close>), \<open>Inr\<close> a fulfilled one.
\<close>

datatype request =
    GetDevices | GetLogs | PostScan | GetScanStatus
  | PostBlock string | PostNickname string string
  | PostPanic | PostPanicUnlock

datatype fault = NetworkError | JsonSyntaxError

datatype 'r outcome = Unreachable | Malformed | Parsed 'r

type_synonym ('r, 'a) call = "request list \<times> ('r outcome \<Rightarrow> fault + 'a)"

definition sends :: "('r, 'a) call \<Rightarrow> request list" where
  "sends c = fst c"

definition settle :: "('r, 'a) call \<Rightarrow> 'r outcome \<Rightarrow> fault + 'a" where
  "settle c out = snd c out"

text \<open>\<^verbatim>\<open>const response = await fetch(url); return await response.json();\<close>\<close>

definition fetch_json :: "request \<Rightarrow> ('r, 'r) call" where
  "fetch_json req =
     ([req], \<lambda>out. case out of
         Unreachable \<Rightarrow> Inl NetworkError
       | Malformed \<Rightarrow> Inl JsonSyntaxError
       | Parsed v \<Rightarrow> Inr v)"

definition then_return :: "('a \<Rightarrow> 'b) \<Rightarrow> ('r, 'a) call \<Rightarrow> ('r, 'b) call" where
  "then_return f c =
     (fst c, \<lambda>out. case snd c out of Inl e \<Rightarrow> Inl e | Inr v \<Rightarrow> Inr (f v))"

definition try_catch :: "('r, 'a) call \<Rightarrow> (fault \<Rightarrow> fault + 'a) \<Rightarrow> ('r, 'a) call" where
  "try_catch c handler =
     (fst c, \<lambda>out. case snd c out of Inl e \<Rightarrow> handler e | Inr v \<Rightarrow> Inr v)"

definition returning :: "'a \<Rightarrow> ('r, 'a) call" where
  "returning v = ([], \<lambda>out. Inr v)"

definition fetchDevices :: "(device list, device list) call" where
  "fetchDevices = try_catch (fetch_json GetDevices) (\<lambda>error. Inr [])"

definition fetchLogs :: "(log_entry list, log_entry list) call" where
  "fetchLogs = try_catch (fetch_json GetLogs) (\<lambda>error. Inr [])"

definition error_reply :: reply where
  "error_reply = \<lparr>status = ''error'', message = None, reply_isBlocked = False\<rparr>"

definition triggerScan :: "(reply, reply) call" where
  "triggerScan = try_catch (fetch_json PostScan) (\<lambda>error. Inr error_reply)"

text \<open>The status object is reduced to its \<^verbatim>\<open>is_scanning\<close> field.\<close>

definition getScanStatus :: "(bool, bool) call" where
  "getScanStatus = try_catch (fetch_json GetScanStatus) (\<lambda>error. Inr False)"

text \<open>
  \<^verbatim>\<open>toggleDeviceBlock\<close> returns nothing (\<^verbatim>\<open>undefined\<close>, here \<open>None\<close>) from its guard
  clause and from its \<^verbatim>\<open>catch\<close> block.
\<close>

definition toggleDeviceBlock :: "js_value \<Rightarrow> (reply, reply option) call" where
  "toggleDeviceBlock deviceId =
     (if \<not> truthy deviceId then returning None
      else try_catch (then_return Some (fetch_json (PostBlock (js_to_string deviceId))))
             (\<lambda>error. Inr None))"

text \<open>
  The request is named by the identifier and the nickname it carries; the percent-encoding
  of the URL is left out.
\<close>

definition updateDeviceNickname :: "js_value \<Rightarrow> string \<Rightarrow> (reply, reply option) call" where
  "updateDeviceNickname deviceId nickname' =
     (if \<not> truthy deviceId then returning None
      else try_catch
             (then_return Some (fetch_json (PostNickname (js_to_string deviceId) nickname')))
             (\<lambda>error. Inr (Some error_reply)))"

text \<open>
  \<^verbatim>\<open>triggerPanicMode\<close> answers a transport failure with an empty array,
  \<^verbatim>\<open>triggerUnlockPanicControl\<close> with \<^verbatim>\<open>{ status: "error" }\<close>.
\<close>

datatype bulk_result = EmptyArray | Object reply

definition triggerPanicMode :: "(reply, bulk_result) call" where
  "triggerPanicMode = try_catch (then_return Object (fetch_json PostPanic)) (\<lambda>error. Inr EmptyArray)"

definition triggerUnlockPanicControl :: "(reply, bulk_result) call" where
  "triggerUnlockPanicControl =
     try_catch (then_return Object (fetch_json PostPanicUnlock)) (\<lambda>error. Inr (Object error_reply))"

section \<open>Application state (App.jsx)\<close>

text \<open>
  The React state of \<^verbatim>\<open>App\<close>, together with what the component has done to the outside:
  the requests sent to the backend, in order, and the messages shown with \<^verbatim>\<open>alert\<close>.
  Each call of \<^verbatim>\<open>handleScan\<close> that got past \<^verbatim>\<open>await triggerScan()\<close> owns two timers,
  the 1 s poll interval and the 120 s timeout; \<open>timers\<close> lists them in creation order and
  \<open>scan_requests_pending\<close> counts the calls still waiting at that \<^verbatim>\<open>await\<close>.
\<close>

record scan_timers =
  interval_active :: bool
  timeout_pending :: bool

record world =
  devices :: "device list"
  logs :: "log_entry list"
  loading :: bool
  processingId :: js_value
  selectedDevice :: "device option"
  panicProcessing :: bool
  unlockProcessing :: bool
  autoScanEnabled :: bool
  requests :: "request list"
  alerts :: "string list"
  scan_requests_pending :: nat
  timers :: "scan_timers list"

definition initial_world :: world where
  "initial_world =
     \<lparr>devices = [], logs = [], loading = False, processingId = JNull, selectedDevice = None,
      panicProcessing = False, unlockProcessing = False, autoScanEnabled = False,
      requests = [], alerts = [], scan_requests_pending = 0, timers = []\<rparr>"

text \<open>
  A piece of handler code runs on the world and either completes with a value or throws;
  the world it leaves behind is kept in both cases, so that \<^verbatim>\<open>catch\<close> and \<^verbatim>\<open>finally\<close>
  continue from it.
\<close>

type_synonym 'a task = "world \<Rightarrow> (fault + 'a) \<times> world"

definition pure :: "'a \<Rightarrow> 'a task" where
  "pure v = (\<lambda>w. (Inr v, w))"

definition bind :: "'a task \<Rightarrow> ('a \<Rightarrow> 'b task) \<Rightarrow> 'b task" where
  "bind t k = (\<lambda>w. case t w of (Inl e, w') \<Rightarrow> (Inl e, w') | (Inr v, w') \<Rightarrow> k v w')"

definition seq :: "unit task \<Rightarrow> 'b task \<Rightarrow> 'b task" where
  "seq t u = bind t (\<lambda>_. u)"

definition set_state :: "(world \<Rightarrow> world) \<Rightarrow> unit task" where
  "set_state f = (\<lambda>w. (Inr (), f w))"

definition catching :: "'a task \<Rightarrow> (fault \<Rightarrow> 'a task) \<Rightarrow> 'a task" where
  "catching t handler = (\<lambda>w. case t w of (Inl e, w') \<Rightarrow> handler e w' | (Inr v, w') \<Rightarrow> (Inr v, w'))"

definition finalizing :: "'a task \<Rightarrow> unit task \<Rightarrow> 'a task" where
  "finalizing t cleanup =
     (\<lambda>w. case t w of (r, w') \<Rightarrow>
        (case cleanup w' of (Inl e, w'') \<Rightarrow> (Inl e, w'') | (Inr _, w'') \<Rightarrow> (r, w'')))"

text \<open>
  Calling an API function sends its requests; the \<^verbatim>\<open>await\<close> on it resumes with what it
  settles to. \<open>call_api\<close> is the two together, for the places where no claim looks at
  the world in between.
\<close>

definition send :: "('r, 'a) call \<Rightarrow> unit task" where
  "send c = set_state (\<lambda>w. w\<lparr>requests := requests w @ sends c\<rparr>)"

definition receive :: "('r, 'a) call \<Rightarrow> 'r outcome \<Rightarrow> 'a task" where
  "receive c out = (\<lambda>w. (settle c out, w))"

definition call_api :: "('r, 'a) call \<Rightarrow> 'r outcome \<Rightarrow> 'a task" where
  "call_api c out = seq (send c) (receive c out)"

definition alert :: "string \<Rightarrow> unit task" where
  "alert msg = set_state (\<lambda>w. w\<lparr>alerts := alerts w @ [msg]\<rparr>)"

text \<open>\<^verbatim>\<open>a || b\<close> on a text that may be missing: the empty string is falsy too.\<close>

definition or_default :: "string option \<Rightarrow> string \<Rightarrow> string" where
  "or_default a b = (case a of None \<Rightarrow> b | Some s \<Rightarrow> if s = [] then b else s)"

subsection \<open>loadData\<close>

text \<open>
  Both fetches are started before either is awaited (\<^verbatim>\<open>Promise.all\<close>). The fallbacks
  \<^verbatim>\<open>devicesData || []\<close> and \<^verbatim>\<open>logsData || []\<close> leave a list as it is.
\<close>

definition loadData :: "device list outcome \<Rightarrow> log_entry list outcome \<Rightarrow> unit task" where
  "loadData outD outL =
     seq (send fetchDevices) (seq (send fetchLogs)
       (bind (receive fetchDevices outD) (\<lambda>devicesData.
        bind (receive fetchLogs outL) (\<lambda>logsData.
        set_state (\<lambda>w. w\<lparr>devices := devicesData, logs := logsData\<rparr>)))))"

subsection \<open>handleScan and its two timers\<close>

text \<open>
  \<^verbatim>\<open>handleScan\<close> up to its \<^verbatim>\<open>await\<close>: the flag is raised and the scan request is sent.
  There is no test of \<open>loading\<close> in the function; the Scan button carries
  \<^verbatim>\<open>disabled={loading}\<close>.
\<close>

definition handleScan_begin :: "unit task" where
  "handleScan_begin =
     seq (set_state (\<lambda>w. w\<lparr>loading := True\<rparr>))
       (seq (send triggerScan)
         (set_state (\<lambda>w. w\<lparr>scan_requests_pending := Suc (scan_requests_pending w)\<rparr>)))"

definition scan_button_click :: "unit task" where
  "scan_button_click = (\<lambda>w. if loading w then (Inr (), w) else handleScan_begin w)"

text \<open>
  The rest of \<^verbatim>\<open>handleScan\<close>, once \<^verbatim>\<open>triggerScan\<close> has settled (its value is not looked
  at): \<^verbatim>\<open>setInterval\<close> and \<^verbatim>\<open>setTimeout\<close> create the two timers.
\<close>

definition handleScan_resume :: "reply outcome \<Rightarrow> unit task" where
  "handleScan_resume outS =
     (\<lambda>w. if scan_requests_pending w = 0 then (Inr (), w)
          else bind (receive triggerScan outS) (\<lambda>_.
                 set_state (\<lambda>w. w\<lparr>scan_requests_pending := scan_requests_pending w - 1,
                                    timers := timers w @ [\<lparr>interval_active = True, timeout_pending = True\<rparr>]\<rparr>)) w)"

definition clearInterval :: "nat \<Rightarrow> unit task" where
  "clearInterval t =
     set_state (\<lambda>w. if t < length (timers w)
                     then w\<lparr>timers := (timers w)[t := (timers w ! t)\<lparr>interval_active := False\<rparr>]\<rparr>
                     else w)"

text \<open>
  One run of the interval callback of the scan whose timers are number \<open>t\<close>; an interval
  that has been cleared does not fire. The status request and its answer are taken as one
  step.
\<close>

definition scan_poll_tick ::
  "nat \<Rightarrow> bool outcome \<Rightarrow> device list outcome \<Rightarrow> log_entry list outcome \<Rightarrow> unit task" where
  "scan_poll_tick t outStatus outD outL =
     (\<lambda>w. if t < length (timers w) \<and> interval_active (timers w ! t)
          then bind (call_api getScanStatus outStatus) (\<lambda>is_scanning.
                 if \<not> is_scanning
                 then seq (clearInterval t) (seq (loadData outD outL)
                        (set_state (\<lambda>w. w\<lparr>loading := False\<rparr>)))
                 else pure ()) w
          else (Inr (), w))"

text \<open>The timeout callback; it fires once, 120 s after the timers were created.\<close>

definition scan_timeout_fire ::
  "nat \<Rightarrow> device list outcome \<Rightarrow> log_entry list outcome \<Rightarrow> unit task" where
  "scan_timeout_fire t outD outL =
     (\<lambda>w. if t < length (timers w) \<and> timeout_pending (timers w ! t)
          then seq (set_state (\<lambda>w. w\<lparr>timers := (timers w)[t := (timers w ! t)\<lparr>timeout_pending := False\<rparr>]\<rparr>))
                 (seq (clearInterval t)
                   (seq (set_state (\<lambda>w. w\<lparr>loading := False\<rparr>))
                     (loadData outD outL))) w
          else (Inr (), w))"

text \<open>What can happen to the scan controller, and a run of such events.\<close>

datatype scan_event =
    ClickScan
  | ScanAcknowledged "reply outcome"
  | PollTick nat "bool outcome" "device list outcome" "log_entry list outcome"
  | TimeoutFires nat "device list outcome" "log_entry list outcome"

fun scan_step :: "scan_event \<Rightarrow> unit task" where
  "scan_step ClickScan = scan_button_click"
| "scan_step (ScanAcknowledged outS) = handleScan_resume outS"
| "scan_step (PollTick t outStatus outD outL) = scan_poll_tick t outStatus outD outL"
| "scan_step (TimeoutFires t outD outL) = scan_timeout_fire t outD outL"

fun run :: "scan_event list \<Rightarrow> world \<Rightarrow> world" where
  "run [] w = w"
| "run (e # es) w = run es (snd (scan_step e w))"

text \<open>A scan is active while its start request is unanswered or its interval is running.\<close>

definition scan_active :: "world \<Rightarrow> bool" where
  "scan_active w = (scan_requests_pending w > 0 \<or> list_ex interval_active (timers w))"

definition count_sent :: "request \<Rightarrow> world \<Rightarrow> nat" where
  "count_sent r w = length (filter (\<lambda>x. x = r) (requests w))"

subsection \<open>handlePanic and handleUnlockPanic\<close>

definition reply_succeeded :: "bulk_result \<Rightarrow> bool" where
  "reply_succeeded res = (case res of EmptyArray \<Rightarrow> False | Object r \<Rightarrow> status r = ''success'')"

definition message_of :: "bulk_result \<Rightarrow> string option" where
  "message_of res = (case res of EmptyArray \<Rightarrow> None | Object r \<Rightarrow> message r)"

text \<open>
  Each handler is split at its first \<^verbatim>\<open>await\<close>. The first part answers whether the request
  went out (\<open>False\<close>: the guard returned at once).
\<close>

definition handlePanic_begin :: "bool task" where
  "handlePanic_begin =
     (\<lambda>w. if panicProcessing w then (Inr False, w)
          else seq (set_state (\<lambda>w. w\<lparr>panicProcessing := True\<rparr>))
                 (seq (send triggerPanicMode) (pure True)) w)"

definition handlePanic_resume :: "reply outcome \<Rightarrow> log_entry list outcome \<Rightarrow> unit task" where
  "handlePanic_resume outP outL =
     finalizing
       (catching
          (bind (receive triggerPanicMode outP) (\<lambda>res.
             if reply_succeeded res
             then seq (alert (or_default (message_of res) ''Panic mode activated''))
                    (bind (call_api fetchLogs outL) (\<lambda>newLogs.
                       set_state (\<lambda>w. w\<lparr>logs := newLogs\<rparr>)))
             else alert (or_default (message_of res) ''Failed to activate panic mode'')))
          (\<lambda>e. alert ''Error triggering panic mode''))
       (set_state (\<lambda>w. w\<lparr>panicProcessing := False\<rparr>))"

definition handlePanic :: "reply outcome \<Rightarrow> log_entry list outcome \<Rightarrow> unit task" where
  "handlePanic outP outL =
     bind handlePanic_begin (\<lambda>sent. if sent then handlePanic_resume outP outL else pure ())"

definition handleUnlockPanic_begin :: "bool task" where
  "handleUnlockPanic_begin =
     (\<lambda>w. if unlockProcessing w then (Inr False, w)
          else seq (set_state (\<lambda>w. w\<lparr>unlockProcessing := True\<rparr>))
                 (seq (send triggerUnlockPanicControl) (pure True)) w)"

definition handleUnlockPanic_resume :: "reply outcome \<Rightarrow> log_entry list outcome \<Rightarrow> unit task" where
  "handleUnlockPanic_resume outU outL =
     finalizing
       (catching
          (bind (receive triggerUnlockPanicControl outU) (\<lambda>res.
             if reply_succeeded res
             then seq (alert (or_default (message_of res) ''Panic unlock activated''))
                    (bind (call_api fetchLogs outL) (\<lambda>newLogs.
                       set_state (\<lambda>w. w\<lparr>logs := newLogs\<rparr>)))
             else alert (or_default (message_of res) ''Failed to unlock panic mode'')))
          (\<lambda>e. alert ''Error unlocking panic mode''))
       (set_state (\<lambda>w. w\<lparr>unlockProcessing := False\<rparr>))"

definition handleUnlockPanic :: "reply outcome \<Rightarrow> log_entry list outcome \<Rightarrow> unit task" where
  "handleUnlockPanic outU outL =
     bind handleUnlockPanic_begin
       (\<lambda>sent. if sent then handleUnlockPanic_resume outU outL else pure ())"

subsection \<open>handleToggleBlock\<close>

text \<open>\<^verbatim>\<open>result && result.status === "success"\<close>\<close>

definition toggle_confirmed :: "reply option \<Rightarrow> bool" where
  "toggle_confirmed result = (case result of None \<Rightarrow> False | Some r \<Rightarrow> status r = ''success'')"

text \<open>
  \<^verbatim>\<open>device.mac === mac\<close> compares the stored text with whatever value the caller passed.
\<close>

definition set_blocked :: "js_value \<Rightarrow> bool \<Rightarrow> device \<Rightarrow> device" where
  "set_blocked m b device' =
     (if JString (mac device') = m then device'\<lparr>isBlocked := b\<rparr> else device')"

text \<open>
  The handler up to its first \<^verbatim>\<open>await\<close>: \<open>processingId\<close> is written and never read.
\<close>

definition handleToggleBlock_begin :: "js_value \<Rightarrow> unit task" where
  "handleToggleBlock_begin m =
     seq (set_state (\<lambda>w. w\<lparr>processingId := m\<rparr>)) (send (toggleDeviceBlock m))"

text \<open>\<^verbatim>\<open>selectedDevice && selectedDevice.mac === mac\<close>\<close>

definition selected_matches :: "device option \<Rightarrow> js_value \<Rightarrow> bool" where
  "selected_matches selected m =
     (case selected of None \<Rightarrow> False | Some s \<Rightarrow> JString (mac s) = m)"

text \<open>
  The handler from the reply on. \<open>selected\<close> is the inspector's device of the render in
  which the handler was called, which is what the test reads; the update
  \<^verbatim>\<open>setSelectedDevice((prev) => ...)\<close> patches the device selected when the reply arrives.
  Where nothing is selected by then, the source builds an object that holds \<open>isBlocked\<close>
  alone; a device record cannot be that, and the model leaves the selection empty.
\<close>

definition handleToggleBlock_resume ::
  "device option \<Rightarrow> js_value \<Rightarrow> reply outcome \<Rightarrow> log_entry list outcome \<Rightarrow> unit task" where
  "handleToggleBlock_resume selected m outT outL =
     bind (receive (toggleDeviceBlock m) outT) (\<lambda>result.
       seq (case result of
              None \<Rightarrow> pure ()
            | Some r \<Rightarrow>
                if toggle_confirmed result
                then seq (set_state (\<lambda>w. w\<lparr>devices := map (set_blocked m (reply_isBlocked r)) (devices w)\<rparr>))
                       (seq (if selected_matches selected m
                             then set_state (\<lambda>w. w\<lparr>selectedDevice :=
                                    map_option (\<lambda>prev. prev\<lparr>isBlocked := reply_isBlocked r\<rparr>) (selectedDevice w)\<rparr>)
                             else pure ())
                         (bind (call_api fetchLogs outL) (\<lambda>newLogs.
                            set_state (\<lambda>w. w\<lparr>logs := newLogs\<rparr>))))
                else pure ())
           (set_state (\<lambda>w. w\<lparr>processingId := JNull\<rparr>)))"

text \<open>The whole handler, with the reply arriving before anything else happens.\<close>

definition handleToggleBlock ::
  "js_value \<Rightarrow> reply outcome \<Rightarrow> log_entry list outcome \<Rightarrow> unit task" where
  "handleToggleBlock m outT outL =
     (\<lambda>w. seq (handleToggleBlock_begin m)
            (handleToggleBlock_resume (selectedDevice w) m outT outL) w)"

subsection \<open>The inspector's block button\<close>

text \<open>
  \<^verbatim>\<open>openDeviceModal\<close> selects the device the inspector shows (the nickname draft it
  also sets is not part of the model). In the earlier version of
  the component, whose \<^verbatim>\<open>handleToggleBlock\<close> is the same function, the inspector's button
  calls it with \<^verbatim>\<open>selectedDevice.mac\<close> and carries
  \<^verbatim>\<open>disabled={processingId === selectedDevice.mac}\<close>.
\<close>

definition openDeviceModal :: "device \<Rightarrow> unit task" where
  "openDeviceModal d = set_state (\<lambda>w. w\<lparr>selectedDevice := Some d\<rparr>)"

definition block_button_click :: "unit task" where
  "block_button_click =
     (\<lambda>w. case selectedDevice w of
            None \<Rightarrow> (Inr (), w)
          | Some selected \<Rightarrow>
              if processingId w = JString (mac selected) then (Inr (), w)
              else handleToggleBlock_begin (JString (mac selected)) w)"

subsection \<open>The auto-scan polling effect\<close>

text \<open>
  The effect runs when \<open>autoScanEnabled\<close> changes, and its interval callback keeps the
  variables of that run: \<^verbatim>\<open>devices\<close> as rendered then, and the counter
  \<^verbatim>\<open>lastDeviceCount\<close>, which the callback updates. The effect is not run again when the
  store changes (its dependency list is \<^verbatim>\<open>[autoScanEnabled]\<close>).
\<close>

record poll_closure =
  rendered_devices :: "device list"
  lastDeviceCount :: nat

definition autoscan_effect :: "world \<Rightarrow> poll_closure option" where
  "autoscan_effect w =
     (if \<not> autoScanEnabled w then None
      else Some \<lparr>rendered_devices = devices w, lastDeviceCount = length (devices w)\<rparr>)"

text \<open>
  One run of the 15 s interval callback. The source compares the \<^verbatim>\<open>JSON.stringify\<close>
  texts of the two snapshots; the model compares them as lists of device records. The
  texts can also differ where the records agree: in a field the record does not hold, in
  the order of the keys, or in a flag that is absent on one side and false on the other.
\<close>

definition autoscan_poll_tick ::
  "poll_closure \<Rightarrow> device list outcome \<Rightarrow> log_entry list outcome \<Rightarrow> poll_closure task" where
  "autoscan_poll_tick c outD outL =
     catching
       (bind (call_api fetchDevices outD) (\<lambda>currentDevices.
        bind (call_api fetchLogs outL) (\<lambda>currentLogs.
          if length currentDevices \<noteq> lastDeviceCount c \<or> currentDevices \<noteq> rendered_devices c
          then seq (set_state (\<lambda>w. w\<lparr>devices := currentDevices, logs := currentLogs\<rparr>))
                 (pure (c\<lparr>lastDeviceCount := length currentDevices\<rparr>))
          else pure c)))
       (\<lambda>error. pure c)"

subsection \<open>isMeaningful and displayNameFor\<close>

text \<open>
  \<^verbatim>\<open>String.prototype.trim\<close> removes white space at both ends; of the characters a
  \<open>char\<close> can hold these are tab, line feed, vertical tab, form feed, carriage return,
  space and the no-break space.
\<close>

definition js_whitespace :: "char \<Rightarrow> bool" where
  "js_whitespace c =
     (c \<in> set [CHR 0x09, CHR 0x0A, CHR 0x0B, CHR 0x0C, CHR 0x0D, CHR 0x20, CHR 0xA0])"

definition trim :: "string \<Rightarrow> string" where
  "trim s = rev (dropWhile js_whitespace (rev (dropWhile js_whitespace s)))"

definition is_digit :: "char \<Rightarrow> bool" where
  "is_digit c = (c \<in> set ''0123456789'')"

text \<open>\<open>None\<close> stands for every value that is not a string.\<close>

definition isMeaningful :: "string option \<Rightarrow> bool" where
  "isMeaningful val =
     (case val of
        None \<Rightarrow> False
      | Some s \<Rightarrow>
          if s = [] then False
          else let trimmed = trim s in
            if length trimmed \<le> 1 then False
            else if trimmed \<noteq> [] \<and> list_all is_digit trimmed then False
            else True)"

text \<open>\<^verbatim>\<open>if (isMeaningful(val)) return val;\<close> followed by the rest of the function.\<close>

definition return_if_meaningful :: "string option \<Rightarrow> string \<Rightarrow> string" where
  "return_if_meaningful val rest =
     (case val of None \<Rightarrow> rest | Some s \<Rightarrow> if isMeaningful val then s else rest)"

definition displayNameFor :: "device \<Rightarrow> string" where
  "displayNameFor d =
     return_if_meaningful (nickname d)
       (return_if_meaningful (hostname d)
         (return_if_meaningful (vendor d) (ip d)))"

subsection \<open>generateQCReport\<close>

text \<open>
  The function builds \<^verbatim>\<open>csvContent\<close> and hands it to the browser as a download; the model
  is the text built, with the time stamp as a parameter. The line ends are written
  \<^verbatim>\<open>"\\n"\<close> in the source, a backslash and the letter n.
\<close>

definition line_end :: string where
  "line_end = [CHR 0x5C, CHR ''n'']"

definition blocked_flag :: "device \<Rightarrow> bool" where
  "blocked_flag d = (isBlocked d \<or> is_blocked d)"

text \<open>A missing text inside a template literal reads \<^verbatim>\<open>undefined\<close>.\<close>

definition render_text :: "string option \<Rightarrow> string" where
  "render_text t = (case t of None \<Rightarrow> ''undefined'' | Some s \<Rightarrow> s)"

definition vendor_or_name :: "device \<Rightarrow> string option" where
  "vendor_or_name d =
     (case vendor d of None \<Rightarrow> name d | Some v \<Rightarrow> if v = [] then name d else Some v)"

definition report_status :: "device \<Rightarrow> string" where
  "report_status d =
     (if blocked_flag d then ''BLOCKED''
      else if risk_score d > 20 then ''VULNERABLE'' else ''SECURE'')"

definition report_latency :: "device \<Rightarrow> string" where
  "report_latency d =
     (case latency d of
        None \<Rightarrow> ''N/A''
      | Some ms \<Rightarrow> if ms = 0 then ''N/A'' else show_nat ms @ ''ms'')"

definition report_fields :: "device \<Rightarrow> string list" where
  "report_fields d =
     [render_text (vendor_or_name d), ip d, mac d,
      or_default (os_type d) ''Unknown'', or_default (device_type d) ''unknown'',
      show_int (risk_score d) @ ''%'', show_nat (open_ports d),
      report_latency d, report_status d]"

fun join_commas :: "string list \<Rightarrow> string" where
  "join_commas [] = []"
| "join_commas [f] = f"
| "join_commas (f # g # fs) = f @ '','' @ join_commas (g # fs)"

definition report_row :: "device \<Rightarrow> string" where
  "report_row d = join_commas (report_fields d) @ line_end"

definition column_header :: string where
  "column_header =
     ''DEVICE NAME,IP ADDRESS,MAC ADDRESS,OS,TYPE,RISK SCORE,OPEN PORTS,LATENCY,STATUS''"

definition generateQCReport :: "string \<Rightarrow> device list \<Rightarrow> string" where
  "generateQCReport timestamp devs =
     (let total = length devs;
          blocked = length (filter blocked_flag devs);
          highRisk = length (filter (\<lambda>d. risk_score d > 50) devs)
      in ''data:text/csv;charset=utf-8,''
         @ ''AEGIS SECURITY AUDIT REPORT'' @ line_end
         @ ''Generated At,'' @ timestamp @ line_end
         @ ''Total Devices,'' @ show_nat total @ line_end
         @ ''Quarantined Devices,'' @ show_nat blocked @ line_end
         @ ''Critical Threats,'' @ show_nat highRisk @ line_end @ line_end
         @ column_header @ line_end
         @ concat (map report_row devs))"

definition option_to_list :: "'a option \<Rightarrow> 'a list" where
  "option_to_list x = (case x of None \<Rightarrow> [] | Some v \<Rightarrow> [v])"

text \<open>
  The display-name rule in the words of the specification: the first meaningful value
  among nickname, hostname and vendor, else the raw IP; the test for "meaningful" is a
  parameter.
\<close>

definition first_meaningful :: "(string \<Rightarrow> bool) \<Rightarrow> device \<Rightarrow> string" where
  "first_meaningful meaningful d =
     (case filter meaningful (concat (map option_to_list [nickname d, hostname d, vendor d])) of
        [] \<Rightarrow> ip d
      | v # _ \<Rightarrow> v)"

text \<open>"A non-empty string of length greater than 1 that is not purely numeric."\<close>

definition stated_meaningful :: "string \<Rightarrow> bool" where
  "stated_meaningful s = (s \<noteq> [] \<and> length s > 1 \<and> \<not> list_all is_digit s)"

section \<open>Runs of the application\<close>

text \<open>
  A session is the world together with the bookkeeping of the two bulk actions: how many
  calls of \<^verbatim>\<open>handlePanic\<close> (of \<^verbatim>\<open>handleUnlockPanic\<close>) have sent their request and wait
  at their \<^verbatim>\<open>await\<close> for the reply, and how many replies have been delivered. An
  invocation runs the handler up to that \<^verbatim>\<open>await\<close>; a reply runs the rest of the handler
  for one waiting call. The other events are the handlers modelled above, each as one step;
  the reply to a block toggle may arrive at any point of a run.
\<close>

record session =
  app :: world
  panic_awaiting :: nat
  panic_answered :: nat
  unlock_awaiting :: nat
  unlock_answered :: nat

definition session_start :: session where
  "session_start =
     \<lparr>app = initial_world, panic_awaiting = 0, panic_answered = 0,
      unlock_awaiting = 0, unlock_answered = 0\<rparr>"

datatype app_event =
    InvokePanic
  | PanicReplies "reply outcome" "log_entry list outcome"
  | InvokeUnlock
  | UnlockReplies "reply outcome" "log_entry list outcome"
  | Scan scan_event
  | LoadData "device list outcome" "log_entry list outcome"
  | OpenDevice device
  | ClickBlock
  | InvokeToggle js_value
  | ToggleReplies "device option" js_value "reply outcome" "log_entry list outcome"
  | AutoscanTick poll_closure "device list outcome" "log_entry list outcome"

definition in_app :: "'a task \<Rightarrow> session \<Rightarrow> session" where
  "in_app t s = s\<lparr>app := snd (t (app s))\<rparr>"

fun app_step :: "app_event \<Rightarrow> session \<Rightarrow> session" where
  "app_step InvokePanic s =
     (let (sent, w) = handlePanic_begin (app s)
      in s\<lparr>app := w,
           panic_awaiting := (if sent = Inr True then Suc (panic_awaiting s) else panic_awaiting s)\<rparr>)"
| "app_step (PanicReplies outP outL) s =
     (if panic_awaiting s = 0 then s
      else (in_app (handlePanic_resume outP outL) s)
             \<lparr>panic_awaiting := panic_awaiting s - 1, panic_answered := Suc (panic_answered s)\<rparr>)"
| "app_step InvokeUnlock s =
     (let (sent, w) = handleUnlockPanic_begin (app s)
      in s\<lparr>app := w,
           unlock_awaiting := (if sent = Inr True then Suc (unlock_awaiting s) else unlock_awaiting s)\<rparr>)"
| "app_step (UnlockReplies outU outL) s =
     (if unlock_awaiting s = 0 then s
      else (in_app (handleUnlockPanic_resume outU outL) s)
             \<lparr>unlock_awaiting := unlock_awaiting s - 1, unlock_answered := Suc (unlock_answered s)\<rparr>)"
| "app_step (Scan e) s = in_app (scan_step e) s"
| "app_step (LoadData outD outL) s = in_app (loadData outD outL) s"
| "app_step (OpenDevice d) s = in_app (openDeviceModal d) s"
| "app_step ClickBlock s = in_app block_button_click s"
| "app_step (InvokeToggle m) s = in_app (handleToggleBlock_begin m) s"
| "app_step (ToggleReplies selected m outT outL) s =
     in_app (handleToggleBlock_resume selected m outT outL) s"
| "app_step (AutoscanTick c outD outL) s = in_app (autoscan_poll_tick c outD outL) s"

fun play :: "app_event list \<Rightarrow> session \<Rightarrow> session" where
  "play [] s = s"
| "play (e # es) s = play es (app_step e s)"

definition bulk_request :: "request \<Rightarrow> bool" where
  "bulk_request r = (r = PostPanic \<or> r = PostPanicUnlock)"

text \<open>
  What every run keeps true: each flag is up exactly while one call of its handler waits
  for the reply, and the requests of each kind sent so far are the ones answered and the
  one waited for.
\<close>

definition bulk_invariant :: "session \<Rightarrow> bool" where
  "bulk_invariant s =
     (panic_awaiting s \<le> 1 \<and> unlock_awaiting s \<le> 1
      \<and> panicProcessing (app s) = (panic_awaiting s = 1)
      \<and> unlockProcessing (app s) = (unlock_awaiting s = 1)
      \<and> count_sent PostPanic (app s) = panic_awaiting s + panic_answered s
      \<and> count_sent PostPanicUnlock (app s) = unlock_awaiting s + unlock_answered s)"

section \<open>Sample data\<close>

text \<open>The concrete devices, replies and event sequences at which the properties are evaluated.\<close>

definition sample_device :: device where
  "sample_device =
     \<lparr>mac = ''aa:bb:cc:dd:ee:01'', ip = ''192.168.1.5'', nickname = None, hostname = None,
      vendor = None, name = None, os_type = None, device_type = None, risk_score = 10,
      open_ports = 0, latency = None, isBlocked = False, is_blocked = False\<rparr>"

definition success_reply :: reply where
  "success_reply = \<lparr>status = ''success'', message = None, reply_isBlocked = True\<rparr>"

definition sample_log :: log_entry where
  "sample_log = \<lparr>log_id = 1, log_time = ''10:00'', log_event = ''Device blocked'', log_type = ''danger''\<rparr>"

definition one_device_world :: world where
  "one_device_world = initial_world\<lparr>devices := [sample_device]\<rparr>"

definition scan_started :: "reply outcome" where
  "scan_started = Parsed \<lparr>status = ''started'', message = None, reply_isBlocked = False\<rparr>"

definition completed_scan :: "scan_event list" where
  "completed_scan =
     [ClickScan, ScanAcknowledged scan_started,
      PollTick 0 (Parsed True) (Parsed []) (Parsed []),
      PollTick 0 (Parsed False) (Parsed [sample_device]) (Parsed [sample_log])]"

definition timed_out_scan :: "scan_event list" where
  "timed_out_scan =
     [ClickScan, ScanAcknowledged scan_started,
      PollTick 0 (Parsed True) (Parsed []) (Parsed []),
      TimeoutFires 0 (Parsed [sample_device]) (Parsed [sample_log])]"

definition second_scan_started :: "scan_event list" where
  "second_scan_started = completed_scan @ [ClickScan, ScanAcknowledged scan_started,
      PollTick 1 (Parsed True) (Parsed []) (Parsed []),
      TimeoutFires 0 (Parsed [sample_device]) (Parsed [sample_log])]"

definition risky_device :: device where
  "risky_device = sample_device\<lparr>risk_score := 60\<rparr>"

definition autoscan_world :: world where
  "autoscan_world = initial_world\<lparr>devices := [sample_device], autoScanEnabled := True\<rparr>"

definition autoscan_closure :: poll_closure where
  "autoscan_closure = \<lparr>rendered_devices = [sample_device], lastDeviceCount = 1\<rparr>"

definition after_risk_update :: "(fault + poll_closure) \<times> world" where
  "after_risk_update =
     autoscan_poll_tick autoscan_closure (Parsed [risky_device]) (Parsed []) autoscan_world"

definition tv_device :: device where
  "tv_device = sample_device\<lparr>nickname := Some ''TV'', vendor := Some ''Samsung''\<rparr>"

definition ten_devices :: "device list" where
  "ten_devices =
     [sample_device\<lparr>isBlocked := True\<rparr>, sample_device\<lparr>isBlocked := True\<rparr>,
      sample_device\<lparr>risk_score := 75\<rparr>, sample_device, sample_device, sample_device,
      sample_device, sample_device, sample_device, sample_device]"

definition other_device :: device where
  "other_device = sample_device\<lparr>mac := ''aa:bb:cc:dd:ee:02'', ip := ''192.168.1.6''\<rparr>"

definition toggle_in_flight :: world where
  "toggle_in_flight =
     snd (block_button_click (snd (openDeviceModal sample_device initial_world)))"

definition other_toggle_in_flight :: world where
  "other_toggle_in_flight =
     snd (block_button_click (snd (openDeviceModal other_device toggle_in_flight)))"

definition panic_in_flight :: "app_event list" where
  "panic_in_flight = [Scan ClickScan, InvokePanic, LoadData (Parsed []) (Parsed [])]"

section \<open>Unfolding the handlers\<close>

lemmas task_defs = pure_def bind_def seq_def set_state_def catching_def finalizing_def
  send_def receive_def call_api_def alert_def

lemmas api_defs = sends_def settle_def fetch_json_def then_return_def try_catch_def returning_def

lemma settle_fetchLogs: "settle fetchLogs outL = Inr (case outL of Parsed ls \<Rightarrow> ls | _ \<Rightarrow> [])"
  by (cases outL) (simp_all add: fetchLogs_def api_defs)

lemma sends_fetchLogs: "sends fetchLogs = [GetLogs]"
  by (simp add: fetchLogs_def api_defs)

lemma sends_toggle:
  "sends (toggleDeviceBlock m) = (if truthy m then [PostBlock (js_to_string m)] else [])"
  by (simp add: toggleDeviceBlock_def api_defs)

lemma settle_toggle:
  "settle (toggleDeviceBlock m) outT
     = Inr (if truthy m then (case outT of Parsed r \<Rightarrow> Some r | _ \<Rightarrow> None) else None)"
  by (cases outT) (simp_all add: toggleDeviceBlock_def api_defs)

lemma sends_panic: "sends triggerPanicMode = [PostPanic]"
  by (simp add: triggerPanicMode_def api_defs)

lemma sends_unlock: "sends triggerUnlockPanicControl = [PostPanicUnlock]"
  by (simp add: triggerUnlockPanicControl_def api_defs)

lemma handleToggleBlock_eq:
  "handleToggleBlock m outT outL w =
    (if truthy m \<and> (case outT of Parsed r \<Rightarrow> status r = ''success'' | _ \<Rightarrow> False)
     then (Inr (), w\<lparr>processingId := JNull,
             devices := map (set_blocked m (case outT of Parsed r \<Rightarrow> reply_isBlocked r)) (devices w),
             selectedDevice := map_option (set_blocked m (case outT of Parsed r \<Rightarrow> reply_isBlocked r)) (selectedDevice w),
             logs := (case outL of Parsed ls \<Rightarrow> ls | _ \<Rightarrow> []),
             requests := requests w @ [PostBlock (js_to_string m), GetLogs]\<rparr>)
     else (Inr (), w\<lparr>processingId := JNull, requests := requests w @ sends (toggleDeviceBlock m)\<rparr>))"
proof -
  have sel: "(if selected_matches (selectedDevice w) m
              then map_option (\<lambda>prev. prev\<lparr>isBlocked := b\<rparr>) (selectedDevice w)
              else selectedDevice w)
             = map_option (set_blocked m b) (selectedDevice w)" for b
    by (cases "selectedDevice w") (simp_all add: selected_matches_def set_blocked_def)
  show ?thesis
    using sel
    by (cases outT; cases "selected_matches (selectedDevice w) m")
       (auto simp add: handleToggleBlock_def handleToggleBlock_begin_def
          handleToggleBlock_resume_def task_defs settle_toggle sends_toggle settle_fetchLogs
          sends_fetchLogs toggle_confirmed_def)
qed

lemma handlePanic_begin_eq:
  "handlePanic_begin w =
     (if panicProcessing w then (Inr False, w)
      else (Inr True, w\<lparr>panicProcessing := True, requests := requests w @ [PostPanic]\<rparr>))"
  by (simp add: handlePanic_begin_def task_defs sends_panic)

lemma handleUnlockPanic_begin_eq:
  "handleUnlockPanic_begin w =
     (if unlockProcessing w then (Inr False, w)
      else (Inr True, w\<lparr>unlockProcessing := True, requests := requests w @ [PostPanicUnlock]\<rparr>))"
  by (simp add: handleUnlockPanic_begin_def task_defs sends_unlock)

lemma handleScan_begin_unguarded:
  "handleScan_begin w =
     (Inr (), w\<lparr>loading := True, requests := requests w @ [PostScan],
                scan_requests_pending := Suc (scan_requests_pending w)\<rparr>)"
  by (simp add: handleScan_begin_def task_defs triggerScan_def api_defs)

lemma handleToggleBlock_begin_unguarded:
  "handleToggleBlock_begin m w =
     (Inr (), w\<lparr>processingId := m, requests := requests w @ sends (toggleDeviceBlock m)\<rparr>)"
  by (simp add: handleToggleBlock_begin_def task_defs)

lemma scan_button_disabled_while_loading: "loading w \<Longrightarrow> scan_button_click w = (Inr (), w)"
  by (simp add: scan_button_click_def)

lemma trim_Nil: "trim [] = []"
  by (simp add: trim_def)

lemma isMeaningful_Some:
  "isMeaningful (Some s) = (length (trim s) > 1 \<and> \<not> list_all is_digit (trim s))"
  by (auto simp add: isMeaningful_def Let_def trim_Nil)

section \<open>The scan lifecycle\<close>

text \<open>
  C1. Starting a scan while one is already being requested or polled should change
  nothing and send no second scan request. Evaluated on the code: a first scan completes
  on its second poll; a second scan is started and is polling when the 120 s timer of the
  first one, which completion did not cancel, fires and lowers \<open>loading\<close>. The Scan button
  is enabled again although the second scan is active, and the next click sends a third
  scan request. \<^verbatim>\<open>handleScan\<close> itself tests nothing: called while \<open>loading\<close> is up
  and a scan is polling, it sends the request again.
\<close>

theorem scan_restarted_while_polling:
  "scan_active (run second_scan_started initial_world)
   \<and> \<not> loading (run second_scan_started initial_world)
   \<and> count_sent PostScan (run second_scan_started initial_world) = 2
   \<and> count_sent PostScan (run (second_scan_started @ [ClickScan]) initial_world) = 3
   \<and> loading (run [ClickScan, ScanAcknowledged scan_started] initial_world)
   \<and> requests (snd (handleScan_begin (run [ClickScan, ScanAcknowledged scan_started] initial_world)))
        = [PostScan, PostScan]"
  by code_simp

text \<open>
  C3. A scan session should refresh inventory and log exactly once, at its terminal
  transition. Evaluated on the code: a scan that completes on a poll refreshes then, and
  refreshes a second time when its 120 s timer fires (here overwriting the inventory with
  what the backend answers then); a scan that never sees "not scanning" refreshes once, at
  the timeout.
\<close>

theorem completed_scan_refreshes_twice:
  "count_sent GetDevices (run completed_scan initial_world) = 1
   \<and> \<not> scan_active (run completed_scan initial_world)
   \<and> count_sent GetDevices
        (run (completed_scan @ [TimeoutFires 0 (Parsed []) (Parsed [])]) initial_world) = 2
   \<and> devices (run completed_scan initial_world) = [sample_device]
   \<and> devices (run (completed_scan @ [TimeoutFires 0 (Parsed []) (Parsed [])]) initial_world) = []
   \<and> count_sent GetDevices (run timed_out_scan initial_world) = 1"
  by code_simp

section \<open>The mutation handlers\<close>

text \<open>
  C2. For every call of \<^verbatim>\<open>handleToggleBlock\<close>: when the identifier is truthy and the
  backend's reply has status "success", the inventory becomes the old one with
  \<open>isBlocked\<close> of the devices of that mac set to the value the server returned, the log
  store becomes what \<^verbatim>\<open>fetchLogs\<close> settles to, and the requests sent are the toggle and
  the log fetch. In every other case (a reply with another status, an unreachable backend,
  an unparseable body, a falsy identifier) inventory and log store are unchanged and no
  log fetch is sent. The handler never throws.
\<close>

theorem handleToggleBlock_confirm_then_apply:
  "(truthy m \<and> outT = Parsed r \<and> status r = ''success'' \<longrightarrow>
       devices (snd (handleToggleBlock m outT outL w))
         = map (\<lambda>d. if JString (mac d) = m then d\<lparr>isBlocked := reply_isBlocked r\<rparr> else d) (devices w)
     \<and> settle fetchLogs outL = Inr (logs (snd (handleToggleBlock m outT outL w)))
     \<and> requests (snd (handleToggleBlock m outT outL w))
         = requests w @ [PostBlock (js_to_string m), GetLogs])
   \<and> (\<not> (truthy m \<and> (\<exists>r'. outT = Parsed r' \<and> status r' = ''success'')) \<longrightarrow>
       devices (snd (handleToggleBlock m outT outL w)) = devices w
     \<and> logs (snd (handleToggleBlock m outT outL w)) = logs w
     \<and> requests (snd (handleToggleBlock m outT outL w)) = requests w @ sends (toggleDeviceBlock m))
   \<and> fst (handleToggleBlock m outT outL w) = Inr ()"
proof (intro conjI impI)
  assume ok: "truthy m \<and> outT = Parsed r \<and> status r = ''success''"
  then have eq: "handleToggleBlock m outT outL w =
      (Inr (), w\<lparr>processingId := JNull,
             devices := map (set_blocked m (reply_isBlocked r)) (devices w),
             selectedDevice := map_option (set_blocked m (reply_isBlocked r)) (selectedDevice w),
             logs := (case outL of Parsed ls \<Rightarrow> ls | _ \<Rightarrow> []),
             requests := requests w @ [PostBlock (js_to_string m), GetLogs]\<rparr>)"
    by (simp add: handleToggleBlock_eq)
  have sb: "set_blocked m b = (\<lambda>d. if JString (mac d) = m then d\<lparr>isBlocked := b\<rparr> else d)" for b
    by (rule ext) (simp add: set_blocked_def)
  show "devices (snd (handleToggleBlock m outT outL w))
         = map (\<lambda>d. if JString (mac d) = m then d\<lparr>isBlocked := reply_isBlocked r\<rparr> else d) (devices w)"
    by (simp add: eq sb)
  show "settle fetchLogs outL = Inr (logs (snd (handleToggleBlock m outT outL w)))"
    by (simp add: eq settle_fetchLogs)
  show "requests (snd (handleToggleBlock m outT outL w))
         = requests w @ [PostBlock (js_to_string m), GetLogs]"
    by (simp add: eq)
next
  assume no: "\<not> (truthy m \<and> (\<exists>r'. outT = Parsed r' \<and> status r' = ''success''))"
  then have eq: "handleToggleBlock m outT outL w =
      (Inr (), w\<lparr>processingId := JNull, requests := requests w @ sends (toggleDeviceBlock m)\<rparr>)"
    by (cases outT) (auto simp add: handleToggleBlock_eq)
  show "devices (snd (handleToggleBlock m outT outL w)) = devices w"
    by (simp add: eq)
  show "logs (snd (handleToggleBlock m outT outL w)) = logs w"
    by (simp add: eq)
  show "requests (snd (handleToggleBlock m outT outL w)) = requests w @ sends (toggleDeviceBlock m)"
    by (simp add: eq)
next
  show "fst (handleToggleBlock m outT outL w) = Inr ()"
    by (simp add: handleToggleBlock_eq)
qed

text \<open>
  The two cases at a world holding one device: a confirmed toggle blocks it and loads the
  log; with the backend unreachable nothing changes.
\<close>

theorem handleToggleBlock_confirm_then_apply_witness:
  "(truthy (JString ''aa:bb:cc:dd:ee:01'') \<and> status success_reply = ''success'')
   \<and> devices (snd (handleToggleBlock (JString ''aa:bb:cc:dd:ee:01'') (Parsed success_reply)
                    (Parsed [sample_log]) one_device_world))
        = [sample_device\<lparr>isBlocked := True\<rparr>]
   \<and> logs (snd (handleToggleBlock (JString ''aa:bb:cc:dd:ee:01'') (Parsed success_reply)
                    (Parsed [sample_log]) one_device_world)) = [sample_log]
   \<and> \<not> (truthy (JString ''aa:bb:cc:dd:ee:01'')
          \<and> (\<exists>r'. (Unreachable :: reply outcome) = Parsed r' \<and> status r' = ''success''))
   \<and> devices (snd (handleToggleBlock (JString ''aa:bb:cc:dd:ee:01'') Unreachable
                    (Parsed [sample_log]) one_device_world)) = [sample_device]
   \<and> logs (snd (handleToggleBlock (JString ''aa:bb:cc:dd:ee:01'') Unreachable
                    (Parsed [sample_log]) one_device_world)) = []"
  using handleToggleBlock_confirm_then_apply
          [of "JString ''aa:bb:cc:dd:ee:01''" "Parsed success_reply" success_reply
              "Parsed [sample_log]" one_device_world]
        handleToggleBlock_confirm_then_apply
          [of "JString ''aa:bb:cc:dd:ee:01''" Unreachable success_reply
              "Parsed [sample_log]" one_device_world]
  by (simp add: success_reply_def one_device_world_def initial_world_def sample_device_def
        settle_fetchLogs)

text \<open>
  C4. A toggle for a mac whose toggle is still in flight should be rejected and send
  nothing. Evaluated on the code: \<^verbatim>\<open>handleToggleBlock\<close> writes \<open>processingId\<close> and sends
  the request without reading the marker, so a second call for the same mac sends a second
  request. Behind the inspector's button the same happens once a toggle for another device
  has overwritten the single marker: the first device's button is enabled again while its
  request is unanswered.
\<close>

theorem toggle_repeated_while_in_flight:
  "processingId toggle_in_flight = JString ''aa:bb:cc:dd:ee:01''
   \<and> requests toggle_in_flight = [PostBlock ''aa:bb:cc:dd:ee:01'']
   \<and> requests (snd (handleToggleBlock_begin (JString ''aa:bb:cc:dd:ee:01'') toggle_in_flight))
      = [PostBlock ''aa:bb:cc:dd:ee:01'', PostBlock ''aa:bb:cc:dd:ee:01'']
   \<and> requests (snd (block_button_click toggle_in_flight)) = [PostBlock ''aa:bb:cc:dd:ee:01'']
   \<and> requests (snd (block_button_click (snd (openDeviceModal sample_device other_toggle_in_flight))))
      = [PostBlock ''aa:bb:cc:dd:ee:01'', PostBlock ''aa:bb:cc:dd:ee:02'',
         PostBlock ''aa:bb:cc:dd:ee:01'']"
  by code_simp

text \<open>
  C5, as stated: while any bulk request is outstanding, either bulk operation is rejected.
  It fails where a panic lock is in flight and panic unlock is invoked: the unlock request
  is sent.
\<close>

theorem unlock_not_rejected_while_panic_in_flight:
  "panicProcessing (snd (handlePanic_begin initial_world))
   \<and> requests (snd (handlePanic_begin initial_world)) = [PostPanic]
   \<and> fst (handleUnlockPanic_begin (snd (handlePanic_begin initial_world))) = Inr True
   \<and> requests (snd (handleUnlockPanic_begin (snd (handlePanic_begin initial_world))))
        = [PostPanic, PostPanicUnlock]"
  by (simp add: handlePanic_begin_eq handleUnlockPanic_begin_eq initial_world_def)

subsection \<open>What the other handlers leave alone\<close>

lemma settle_fetchDevices: "settle fetchDevices outD = Inr (case outD of Parsed ds \<Rightarrow> ds | _ \<Rightarrow> [])"
  by (cases outD) (simp_all add: fetchDevices_def api_defs)

lemma settle_getScanStatus: "settle getScanStatus out = Inr (case out of Parsed b \<Rightarrow> b | _ \<Rightarrow> False)"
  by (cases out) (simp_all add: getScanStatus_def api_defs)

lemma settle_panic:
  "settle triggerPanicMode outP = Inr (case outP of Parsed r \<Rightarrow> Object r | _ \<Rightarrow> EmptyArray)"
  by (cases outP) (simp_all add: triggerPanicMode_def api_defs)

lemma settle_unlock:
  "settle triggerUnlockPanicControl outU
     = Inr (case outU of Parsed r \<Rightarrow> Object r | _ \<Rightarrow> Object error_reply)"
  by (cases outU) (simp_all add: triggerUnlockPanicControl_def api_defs)

lemma handlePanic_resume_flags:
  "panicProcessing (snd (handlePanic_resume outP outL w)) = False"
  "unlockProcessing (snd (handlePanic_resume outP outL w)) = unlockProcessing w"
  by (simp_all add: handlePanic_resume_def task_defs settle_panic settle_fetchLogs
        split: prod.splits sum.splits)

lemma handleUnlockPanic_resume_flags:
  "unlockProcessing (snd (handleUnlockPanic_resume outU outL w)) = False"
  "panicProcessing (snd (handleUnlockPanic_resume outU outL w)) = panicProcessing w"
  by (simp_all add: handleUnlockPanic_resume_def task_defs settle_unlock settle_fetchLogs
        split: prod.splits sum.splits)

lemma loadData_flags:
  "panicProcessing (snd (loadData outD outL w)) = panicProcessing w"
  "unlockProcessing (snd (loadData outD outL w)) = unlockProcessing w"
  by (simp_all add: loadData_def task_defs settle_fetchDevices settle_fetchLogs)

lemma scan_button_click_flags:
  "panicProcessing (snd (scan_button_click w)) = panicProcessing w"
  "unlockProcessing (snd (scan_button_click w)) = unlockProcessing w"
  by (simp_all add: scan_button_click_def handleScan_begin_unguarded)

lemma handleScan_resume_flags:
  "panicProcessing (snd (handleScan_resume outS w)) = panicProcessing w"
  "unlockProcessing (snd (handleScan_resume outS w)) = unlockProcessing w"
  by (cases outS; simp add: handleScan_resume_def task_defs triggerScan_def api_defs)+

lemma scan_poll_tick_flags:
  "panicProcessing (snd (scan_poll_tick t outStatus outD outL w)) = panicProcessing w"
  "unlockProcessing (snd (scan_poll_tick t outStatus outD outL w)) = unlockProcessing w"
  by (simp_all add: scan_poll_tick_def clearInterval_def loadData_def task_defs
        settle_getScanStatus settle_fetchDevices settle_fetchLogs)

lemma scan_timeout_fire_flags:
  "panicProcessing (snd (scan_timeout_fire t outD outL w)) = panicProcessing w"
  "unlockProcessing (snd (scan_timeout_fire t outD outL w)) = unlockProcessing w"
  by (simp_all add: scan_timeout_fire_def clearInterval_def loadData_def task_defs
        settle_fetchDevices settle_fetchLogs)

lemma scan_step_flags:
  "panicProcessing (snd (scan_step e w)) = panicProcessing w"
  "unlockProcessing (snd (scan_step e w)) = unlockProcessing w"
  by (cases e; simp add: scan_button_click_flags handleScan_resume_flags scan_poll_tick_flags
        scan_timeout_fire_flags)+

lemma toggle_begin_flags:
  "panicProcessing (snd (handleToggleBlock_begin m w)) = panicProcessing w"
  "unlockProcessing (snd (handleToggleBlock_begin m w)) = unlockProcessing w"
  by (simp_all add: handleToggleBlock_begin_unguarded)

lemma toggle_resume_flags:
  "panicProcessing (snd (handleToggleBlock_resume selected m outT outL w)) = panicProcessing w"
  "unlockProcessing (snd (handleToggleBlock_resume selected m outT outL w)) = unlockProcessing w"
  by (simp_all add: handleToggleBlock_resume_def task_defs settle_toggle settle_fetchLogs
        split: option.splits)

lemma block_button_click_flags:
  "panicProcessing (snd (block_button_click w)) = panicProcessing w"
  "unlockProcessing (snd (block_button_click w)) = unlockProcessing w"
  by (simp_all add: block_button_click_def toggle_begin_flags split: option.splits)

lemma openDeviceModal_flags:
  "panicProcessing (snd (openDeviceModal d w)) = panicProcessing w"
  "unlockProcessing (snd (openDeviceModal d w)) = unlockProcessing w"
  by (simp_all add: openDeviceModal_def task_defs)

lemma autoscan_poll_tick_flags:
  "panicProcessing (snd (autoscan_poll_tick c outD outL w)) = panicProcessing w"
  "unlockProcessing (snd (autoscan_poll_tick c outD outL w)) = unlockProcessing w"
  by (simp_all add: autoscan_poll_tick_def task_defs settle_fetchDevices settle_fetchLogs)

lemmas other_handlers_flags = loadData_flags scan_step_flags toggle_begin_flags
  toggle_resume_flags block_button_click_flags openDeviceModal_flags autoscan_poll_tick_flags

lemma handlePanic_resume_sent:
  "bulk_request r \<Longrightarrow> count_sent r (snd (handlePanic_resume outP outL w)) = count_sent r w"
  by (auto simp add: bulk_request_def count_sent_def handlePanic_resume_def task_defs settle_panic
        settle_fetchLogs sends_fetchLogs)

lemma handleUnlockPanic_resume_sent:
  "bulk_request r \<Longrightarrow> count_sent r (snd (handleUnlockPanic_resume outU outL w)) = count_sent r w"
  by (auto simp add: bulk_request_def count_sent_def handleUnlockPanic_resume_def task_defs
        settle_unlock settle_fetchLogs sends_fetchLogs)

lemma sends_fetchDevices: "sends fetchDevices = [GetDevices]"
  by (simp add: fetchDevices_def api_defs)

lemma sends_getScanStatus: "sends getScanStatus = [GetScanStatus]"
  by (simp add: getScanStatus_def api_defs)

lemma loadData_sent:
  "bulk_request r \<Longrightarrow> count_sent r (snd (loadData outD outL w)) = count_sent r w"
  by (auto simp add: bulk_request_def count_sent_def loadData_def task_defs settle_fetchDevices
        settle_fetchLogs sends_fetchLogs sends_fetchDevices)

lemma scan_step_sent:
  "bulk_request r \<Longrightarrow> count_sent r (snd (scan_step e w)) = count_sent r w"
proof (cases e)
  case ClickScan
  assume "bulk_request r"
  with ClickScan show ?thesis
    by (auto simp add: bulk_request_def count_sent_def scan_button_click_def
          handleScan_begin_unguarded)
next
  case (ScanAcknowledged outS)
  then show ?thesis
    by (cases outS; simp add: count_sent_def handleScan_resume_def task_defs triggerScan_def api_defs)
next
  case (PollTick t outStatus outD outL)
  assume "bulk_request r"
  with PollTick show ?thesis
    by (auto simp add: bulk_request_def count_sent_def scan_poll_tick_def clearInterval_def
          loadData_def task_defs settle_getScanStatus sends_getScanStatus settle_fetchDevices
          settle_fetchLogs sends_fetchLogs sends_fetchDevices)
next
  case (TimeoutFires t outD outL)
  assume "bulk_request r"
  with TimeoutFires show ?thesis
    by (auto simp add: bulk_request_def count_sent_def scan_timeout_fire_def clearInterval_def
          loadData_def task_defs settle_fetchDevices settle_fetchLogs sends_fetchLogs
          sends_fetchDevices)
qed

lemma toggle_begin_sent:
  "bulk_request r \<Longrightarrow> count_sent r (snd (handleToggleBlock_begin m w)) = count_sent r w"
  by (auto simp add: bulk_request_def count_sent_def handleToggleBlock_begin_unguarded sends_toggle)

lemma toggle_resume_sent:
  "bulk_request r \<Longrightarrow>
     count_sent r (snd (handleToggleBlock_resume selected m outT outL w)) = count_sent r w"
  by (auto simp add: bulk_request_def count_sent_def handleToggleBlock_resume_def task_defs
        settle_toggle settle_fetchLogs sends_fetchLogs split: option.splits)

lemma block_button_click_sent:
  "bulk_request r \<Longrightarrow> count_sent r (snd (block_button_click w)) = count_sent r w"
  by (simp add: block_button_click_def toggle_begin_sent split: option.splits)

lemma openDeviceModal_sent: "count_sent r (snd (openDeviceModal d w)) = count_sent r w"
  by (simp add: count_sent_def openDeviceModal_def task_defs)

lemma autoscan_poll_tick_sent:
  "bulk_request r \<Longrightarrow> count_sent r (snd (autoscan_poll_tick c outD outL w)) = count_sent r w"
  by (auto simp add: bulk_request_def count_sent_def autoscan_poll_tick_def task_defs
        settle_fetchDevices settle_fetchLogs sends_fetchLogs sends_fetchDevices)

lemmas other_handlers_sent = loadData_sent scan_step_sent toggle_begin_sent toggle_resume_sent
  block_button_click_sent openDeviceModal_sent autoscan_poll_tick_sent
  handlePanic_resume_sent handleUnlockPanic_resume_sent

subsection \<open>The two flags in every run\<close>

lemma bulk_request_simps: "bulk_request PostPanic" "bulk_request PostPanicUnlock"
  by (simp_all add: bulk_request_def)

lemma app_step_invariant:
  assumes "bulk_invariant s"
  shows "bulk_invariant (app_step e s)"
proof (cases e)
  case InvokePanic
  with assms show ?thesis
    by (auto simp add: bulk_invariant_def handlePanic_begin_eq count_sent_def)
next
  case InvokeUnlock
  with assms show ?thesis
    by (auto simp add: bulk_invariant_def handleUnlockPanic_begin_eq count_sent_def)
next
  case (PanicReplies outP outL)
  with assms show ?thesis
    by (auto simp add: bulk_invariant_def in_app_def handlePanic_resume_flags
          handlePanic_resume_sent bulk_request_simps)
next
  case (UnlockReplies outU outL)
  with assms show ?thesis
    by (auto simp add: bulk_invariant_def in_app_def handleUnlockPanic_resume_flags
          handleUnlockPanic_resume_sent bulk_request_simps)
qed (use assms in \<open>simp_all add: bulk_invariant_def in_app_def other_handlers_flags
        other_handlers_sent bulk_request_simps\<close>)

lemma play_invariant: "bulk_invariant s \<Longrightarrow> bulk_invariant (play es s)"
  by (induction es arbitrary: s) (simp_all add: app_step_invariant)

lemma start_invariant: "bulk_invariant session_start"
  by (simp add: bulk_invariant_def session_start_def initial_world_def count_sent_def)

text \<open>
  C5, amended. At most one panic-lock request and at most one panic-unlock request is in
  flight at any time. In every run from the initial state, the panic requests sent are the
  ones answered and the ones waited for, at most one is waited for, and \<open>panicProcessing\<close>
  is up exactly then; while one is waited for, invoking \<^verbatim>\<open>handlePanic\<close> again leaves the
  session as it is, so nothing is sent. The same holds for panic unlock with
  \<open>unlockProcessing\<close>. The two guards are independent.
\<close>

theorem bulk_action_guarded_per_kind:
  "count_sent PostPanic (app (play es session_start))
     = panic_awaiting (play es session_start) + panic_answered (play es session_start)
   \<and> count_sent PostPanicUnlock (app (play es session_start))
     = unlock_awaiting (play es session_start) + unlock_answered (play es session_start)
   \<and> panic_awaiting (play es session_start) \<le> 1
   \<and> unlock_awaiting (play es session_start) \<le> 1
   \<and> panicProcessing (app (play es session_start)) = (panic_awaiting (play es session_start) = 1)
   \<and> unlockProcessing (app (play es session_start)) = (unlock_awaiting (play es session_start) = 1)
   \<and> (panic_awaiting (play es session_start) = 1 \<longrightarrow>
        app_step InvokePanic (play es session_start) = play es session_start
        \<and> handlePanic outP outL (app (play es session_start)) = (Inr (), app (play es session_start)))
   \<and> (unlock_awaiting (play es session_start) = 1 \<longrightarrow>
        app_step InvokeUnlock (play es session_start) = play es session_start
        \<and> handleUnlockPanic outU outL (app (play es session_start))
            = (Inr (), app (play es session_start)))"
proof -
  define s where "s = play es session_start"
  have inv: "bulk_invariant s"
    unfolding s_def by (rule play_invariant [OF start_invariant])
  then have flags: "panicProcessing (app s) = (panic_awaiting s = 1)"
      "unlockProcessing (app s) = (unlock_awaiting s = 1)"
      "panic_awaiting s \<le> 1" "unlock_awaiting s \<le> 1"
      "count_sent PostPanic (app s) = panic_awaiting s + panic_answered s"
      "count_sent PostPanicUnlock (app s) = unlock_awaiting s + unlock_answered s"
    by (simp_all add: bulk_invariant_def)
  have p1: "panic_awaiting s = 1 \<Longrightarrow> app_step InvokePanic s = s
        \<and> handlePanic outP outL (app s) = (Inr (), app s)"
    using flags by (simp add: handlePanic_begin_eq handlePanic_def bind_def pure_def)
  have u1: "unlock_awaiting s = 1 \<Longrightarrow> app_step InvokeUnlock s = s
        \<and> handleUnlockPanic outU outL (app s) = (Inr (), app s)"
    using flags by (simp add: handleUnlockPanic_begin_eq handleUnlockPanic_def bind_def pure_def)
  from flags p1 u1 show ?thesis
    unfolding s_def by blast
qed

text \<open>
  A run in which a panic lock is in flight: a second invocation changes nothing, an unlock
  is accepted beside it and its reply leaves the panic flag up, and the panic's own reply
  lowers the flag.
\<close>

theorem bulk_action_guarded_per_kind_witness:
  "requests (app (play panic_in_flight session_start)) = [PostScan, PostPanic, GetDevices, GetLogs]
   \<and> panic_awaiting (play panic_in_flight session_start) = 1
   \<and> panic_answered (play panic_in_flight session_start) = 0
   \<and> panicProcessing (app (play panic_in_flight session_start))
   \<and> app_step InvokePanic (play panic_in_flight session_start) = play panic_in_flight session_start
   \<and> handlePanic (Parsed success_reply) (Parsed [sample_log]) (app (play panic_in_flight session_start))
        = (Inr (), app (play panic_in_flight session_start))
   \<and> unlock_awaiting (play (panic_in_flight @ [InvokeUnlock]) session_start) = 1
   \<and> panic_awaiting (play (panic_in_flight @ [InvokeUnlock]) session_start) = 1
   \<and> requests (app (play (panic_in_flight @ [InvokeUnlock, InvokeUnlock, InvokePanic]) session_start))
        = [PostScan, PostPanic, GetDevices, GetLogs, PostPanicUnlock]
   \<and> panic_awaiting (play (panic_in_flight @ [InvokeUnlock, UnlockReplies Unreachable (Parsed [])])
                        session_start) = 1
   \<and> panic_awaiting (play (panic_in_flight @ [PanicReplies (Parsed success_reply) (Parsed [sample_log])])
                        session_start) = 0
   \<and> \<not> panicProcessing (app (play (panic_in_flight @ [PanicReplies (Parsed success_reply) (Parsed [sample_log])])
                        session_start))"
proof -
  have a: "requests (app (play panic_in_flight session_start)) = [PostScan, PostPanic, GetDevices, GetLogs]"
          "panic_awaiting (play panic_in_flight session_start) = 1"
          "panic_answered (play panic_in_flight session_start) = 0"
    by code_simp+
  have b: "unlock_awaiting (play (panic_in_flight @ [InvokeUnlock]) session_start) = 1"
          "panic_awaiting (play (panic_in_flight @ [InvokeUnlock]) session_start) = 1"
          "requests (app (play (panic_in_flight @ [InvokeUnlock, InvokeUnlock, InvokePanic]) session_start))
             = [PostScan, PostPanic, GetDevices, GetLogs, PostPanicUnlock]"
          "panic_awaiting (play (panic_in_flight @ [InvokeUnlock, UnlockReplies Unreachable (Parsed [])])
                        session_start) = 1"
          "panic_awaiting (play (panic_in_flight @ [PanicReplies (Parsed success_reply) (Parsed [sample_log])])
                        session_start) = 0"
    by code_simp+
  note t1 = bulk_action_guarded_per_kind [where es = panic_in_flight
      and outP = "Parsed success_reply" and outL = "Parsed [sample_log]" and outU = Unreachable]
  note t2 = bulk_action_guarded_per_kind [where
      es = "panic_in_flight @ [PanicReplies (Parsed success_reply) (Parsed [sample_log])]"
      and outP = "Parsed success_reply" and outL = "Parsed [sample_log]" and outU = Unreachable]
  from a b t1 t2 show ?thesis
    by simp
qed

section \<open>The API module\<close>

text \<open>
  C6. The inventory fetch and the log fetch never reject: when the backend is unreachable
  or its body does not parse, \<^verbatim>\<open>fetchDevices\<close> and \<^verbatim>\<open>fetchLogs\<close> are fulfilled with the
  empty list, and for every outcome of the transport they are fulfilled with some list.
\<close>

theorem fetch_failure_yields_empty_snapshot:
  "settle fetchDevices Unreachable = Inr []
   \<and> settle fetchDevices Malformed = Inr []
   \<and> settle fetchLogs Unreachable = Inr []
   \<and> settle fetchLogs Malformed = Inr []
   \<and> (\<forall>out. \<exists>snapshot. settle fetchDevices out = Inr snapshot)
   \<and> (\<forall>out. \<exists>snapshot. settle fetchLogs out = Inr snapshot)"
proof -
  have d: "\<exists>snapshot. settle fetchDevices out = Inr snapshot" for out
    by (cases out) (simp_all add: settle_def fetchDevices_def try_catch_def fetch_json_def)
  have l: "\<exists>snapshot. settle fetchLogs out = Inr snapshot" for out
    by (cases out) (simp_all add: settle_def fetchLogs_def try_catch_def fetch_json_def)
  have "settle fetchDevices Unreachable = Inr []" "settle fetchDevices Malformed = Inr []"
       "settle fetchLogs Unreachable = Inr []" "settle fetchLogs Malformed = Inr []"
    by (simp_all add: settle_def fetchDevices_def fetchLogs_def try_catch_def fetch_json_def)
  with d l show ?thesis by blast
qed

text \<open>
  C10. With a falsy device identifier (undefined, null, the empty string, zero, false)
  \<^verbatim>\<open>toggleDeviceBlock\<close> and \<^verbatim>\<open>updateDeviceNickname\<close> send no request and are fulfilled
  with \<^verbatim>\<open>undefined\<close>. Neither function has access to the application's state.
\<close>

theorem falsy_device_id_is_silent_noop:
  assumes "\<not> truthy deviceId"
  shows "sends (toggleDeviceBlock deviceId) = []
         \<and> settle (toggleDeviceBlock deviceId) out = Inr None
         \<and> sends (updateDeviceNickname deviceId nick) = []
         \<and> settle (updateDeviceNickname deviceId nick) out' = Inr None"
  using assms
  by (simp add: toggleDeviceBlock_def updateDeviceNickname_def returning_def sends_def settle_def)

theorem falsy_device_id_is_silent_noop_witness:
  "\<not> truthy JNull
   \<and> sends (toggleDeviceBlock JNull) = []
   \<and> settle (toggleDeviceBlock JNull) (Parsed \<lparr>status = ''success'', message = None, reply_isBlocked = True\<rparr>) = Inr None
   \<and> sends (updateDeviceNickname JNull ''TV'') = []
   \<and> settle (updateDeviceNickname JNull ''TV'') Unreachable = Inr None"
  using falsy_device_id_is_silent_noop [of JNull
      "Parsed \<lparr>status = ''success'', message = None, reply_isBlocked = True\<rparr>" "''TV''" Unreachable]
  by simp

section \<open>The auto-scan polling loop\<close>

text \<open>
  C9. Each tick should apply the fetched snapshots exactly when their content differs from
  what the stores hold. Evaluated on the code, whose test looks at the devices only and
  compares them with the list rendered when the effect started: a tick that fetches an
  unchanged inventory and a new log entry applies nothing; after a tick has applied a
  raised risk score, a tick that fetches the earlier inventory again (equal to the list
  the effect started with, different from the store) applies nothing either.
\<close>

theorem autoscan_poll_misses_changes:
  "autoscan_effect autoscan_world = Some autoscan_closure
   \<and> logs (snd (autoscan_poll_tick autoscan_closure (Parsed [sample_device]) (Parsed [sample_log])
                  autoscan_world)) = []
   \<and> fst after_risk_update = Inr autoscan_closure
   \<and> devices (snd after_risk_update) = [risky_device]
   \<and> devices (snd (autoscan_poll_tick autoscan_closure (Parsed [sample_device]) (Parsed [])
                     (snd after_risk_update))) = [risky_device]"
  by code_simp

text \<open>
  The callback's test at the two ticks of the second case: the raised risk score differs
  from the list the effect started with and is applied; the earlier inventory equals that
  list in length and content, and the store does not follow it.
\<close>

theorem autoscan_poll_misses_changes_witness:
  "[risky_device] \<noteq> rendered_devices autoscan_closure
   \<and> devices (snd after_risk_update) = [risky_device]
   \<and> length [sample_device] = lastDeviceCount autoscan_closure
   \<and> [sample_device] = rendered_devices autoscan_closure
   \<and> devices (snd (autoscan_poll_tick autoscan_closure (Parsed [sample_device]) (Parsed [])
                     (snd after_risk_update))) \<noteq> [sample_device]"
  using autoscan_poll_misses_changes
  by (simp add: autoscan_closure_def risky_device_def sample_device_def)

section \<open>The report generator and the display name\<close>

text \<open>
  C7, as stated: the name field of every report row is the first meaningful value among
  nickname, hostname and vendor, else the IP. It fails for a device with nickname "TV" and
  vendor "Samsung": the rule gives "TV", the row starts with "Samsung".
\<close>

theorem report_row_ignores_nickname:
  "first_meaningful stated_meaningful tv_device = ''TV''
   \<and> hd (report_fields tv_device) = ''Samsung''
   \<and> report_row tv_device
        = ''Samsung,192.168.1.5,aa:bb:cc:dd:ee:01,Unknown,unknown,10%,0,N/A,SECURE'' @ line_end"
  by code_simp

text \<open>
  C7, amended. The priority rule is what \<^verbatim>\<open>displayNameFor\<close> computes, for the dashboard
  cards and the inspector: the first value among nickname, hostname and vendor that is a
  string which, with the white space at its ends removed, is longer than one character and
  not all digits; else the raw IP. The report does not use it: the first field of a row is
  the vendor when that is a non-empty string and the device's \<open>name\<close> otherwise.
\<close>

theorem display_name_rule:
  "displayNameFor d
     = first_meaningful (\<lambda>s. length (trim s) > 1 \<and> \<not> list_all is_digit (trim s)) d
   \<and> hd (report_fields d)
     = (case vendor d of None \<Rightarrow> render_text (name d)
        | Some v \<Rightarrow> if v = [] then render_text (name d) else v)
   \<and> (\<exists>rest. report_row d = hd (report_fields d) @ '','' @ rest)"
proof (intro conjI)
  show "displayNameFor d
     = first_meaningful (\<lambda>s. length (trim s) > 1 \<and> \<not> list_all is_digit (trim s)) d"
    by (cases "nickname d"; cases "hostname d"; cases "vendor d")
       (simp_all add: displayNameFor_def first_meaningful_def return_if_meaningful_def
          option_to_list_def isMeaningful_Some)
  show "hd (report_fields d)
     = (case vendor d of None \<Rightarrow> render_text (name d)
        | Some v \<Rightarrow> if v = [] then render_text (name d) else v)"
    by (simp add: report_fields_def vendor_or_name_def render_text_def split: option.splits)
  show "\<exists>rest. report_row d = hd (report_fields d) @ '','' @ rest"
    by (simp add: report_row_def report_fields_def)
qed

text \<open>
  The three devices of the specification's example, for \<^verbatim>\<open>displayNameFor\<close>, and the report
  field of the first of them.
\<close>

theorem display_name_rule_witness:
  "displayNameFor (sample_device\<lparr>nickname := Some ''TV''\<rparr>) = ''TV''
   \<and> displayNameFor (sample_device\<lparr>nickname := Some [], hostname := Some ''router1''\<rparr>) = ''router1''
   \<and> displayNameFor (sample_device\<lparr>nickname := Some [], hostname := Some ''42'', vendor := Some ''7''\<rparr>)
        = ''192.168.1.5''
   \<and> hd (report_fields (sample_device\<lparr>nickname := Some ''TV''\<rparr>)) = ''undefined''"
  using display_name_rule [of "sample_device\<lparr>nickname := Some ''TV''\<rparr>"]
        display_name_rule [of "sample_device\<lparr>nickname := Some [], hostname := Some ''router1''\<rparr>"]
        display_name_rule [of "sample_device\<lparr>nickname := Some [], hostname := Some ''42'', vendor := Some ''7''\<rparr>"]
  by (simp add: sample_device_def first_meaningful_def option_to_list_def trim_def
        js_whitespace_def is_digit_def render_text_def)

text \<open>
  C8. For every device list the report's summary block gives, as Total Devices, the length
  of the list; as Quarantined Devices, the number of devices whose block flag (in either
  spelling) is set; as Critical Threats, the number of devices with a risk score above 50.
\<close>

theorem report_summary_counts:
  "generateQCReport timestamp devs =
     ''data:text/csv;charset=utf-8,AEGIS SECURITY AUDIT REPORT'' @ line_end
     @ ''Generated At,'' @ timestamp @ line_end
     @ ''Total Devices,'' @ show_nat (length devs) @ line_end
     @ ''Quarantined Devices,''
       @ show_nat (card {i. i < length devs \<and> (isBlocked (devs ! i) \<or> is_blocked (devs ! i))})
       @ line_end
     @ ''Critical Threats,''
       @ show_nat (card {i. i < length devs \<and> risk_score (devs ! i) > 50}) @ line_end @ line_end
     @ column_header @ line_end
     @ concat (map report_row devs)"
  by (simp add: generateQCReport_def Let_def length_filter_conv_card blocked_flag_def)

text \<open>
  The scenario of the specification: ten devices, two of them blocked, one with risk
  score 75.
\<close>

theorem report_summary_counts_witness:
  "length ten_devices = 10
   \<and> length (filter isBlocked ten_devices) = 2
   \<and> map risk_score (filter (\<lambda>d. risk_score d > 50) ten_devices) = [75]
   \<and> generateQCReport ''1/1/2025, 10:00:00 AM'' ten_devices =
       ''data:text/csv;charset=utf-8,AEGIS SECURITY AUDIT REPORT'' @ line_end
       @ ''Generated At,1/1/2025, 10:00:00 AM'' @ line_end
       @ ''Total Devices,10'' @ line_end
       @ ''Quarantined Devices,2'' @ line_end
       @ ''Critical Threats,1'' @ line_end @ line_end
       @ column_header @ line_end
       @ concat (map report_row ten_devices)"
proof -
  have n: "length ten_devices = 10"
    by (simp add: ten_devices_def)
  have b: "card {i. i < length ten_devices \<and> (isBlocked (ten_devices ! i) \<or> is_blocked (ten_devices ! i))} = 2"
    using length_filter_conv_card [of "\<lambda>d. isBlocked d \<or> is_blocked d" ten_devices, symmetric]
    by (simp add: ten_devices_def sample_device_def)
  have r: "card {i. i < length ten_devices \<and> risk_score (ten_devices ! i) > 50} = 1"
    using length_filter_conv_card [of "\<lambda>d. risk_score d > 50" ten_devices, symmetric]
    by (simp add: ten_devices_def sample_device_def)
  have s: "show_nat 10 = ''10''" "show_nat 2 = ''2''" "show_nat 1 = ''1''"
    by code_simp+
  have f: "length (filter isBlocked ten_devices) = 2"
          "map risk_score (filter (\<lambda>d. risk_score d > 50) ten_devices) = [75]"
    by (simp_all add: ten_devices_def sample_device_def)
  have g: "generateQCReport ''1/1/2025, 10:00:00 AM'' ten_devices =
       ''data:text/csv;charset=utf-8,AEGIS SECURITY AUDIT REPORT'' @ line_end
       @ ''Generated At,'' @ ''1/1/2025, 10:00:00 AM'' @ line_end
       @ ''Total Devices,'' @ ''10'' @ line_end
       @ ''Quarantined Devices,'' @ ''2'' @ line_end
       @ ''Critical Threats,'' @ ''1'' @ line_end @ line_end
       @ column_header @ line_end
       @ concat (map report_row ten_devices)"
    using report_summary_counts [of "''1/1/2025, 10:00:00 AM''" ten_devices]
    unfolding b r unfolding n s .
  from n f g show ?thesis
    by simp
qed

end
